theory Spec2Isabelle
  imports Complex_Main "HOL-Library.Log_Nat"
begin

section \<open>Process configuration\<close>

text \<open>
  The three environment variables the module reads once, when it is loaded
  (\<^verbatim>\<open>process.env.SNOWRAIL_MCP_MODE\<close>, \<^verbatim>\<open>process.env.SNOWRAIL_ENV\<close>,
  \<^verbatim>\<open>process.env.SNOWRAIL_API_BASE\<close>). An unset variable reads \<^verbatim>\<open>undefined\<close>,
  modelled as \<open>None\<close>; a set variable is an arbitrary string (the TypeScript casts
  \<^verbatim>\<open>as McpMode\<close> and \<^verbatim>\<open>as SnowrailEnvironment\<close> check nothing at run time).
\<close>

record process_env =
  SNOWRAIL_MCP_MODE :: "string option"
  SNOWRAIL_ENV :: "string option"
  SNOWRAIL_API_BASE :: "string option"

text \<open>\<^verbatim>\<open>a ?? b\<close>: the right operand only when the left one is \<^verbatim>\<open>undefined\<close>.\<close>

definition nullish :: "'a option \<Rightarrow> 'a \<Rightarrow> 'a" where
  "nullish a b = (case a of None \<Rightarrow> b | Some v \<Rightarrow> v)"

definition nullish_opt :: "'a option \<Rightarrow> 'a option \<Rightarrow> 'a option" where
  "nullish_opt a b = (case a of None \<Rightarrow> b | Some v \<Rightarrow> Some v)"

text \<open>Truthiness of a JavaScript string: every string but the empty one.\<close>

definition truthy :: "string \<Rightarrow> bool" where
  "truthy s = (s \<noteq> [])"

subsection \<open>Mode gate\<close>

definition MCP_MODE :: "process_env \<Rightarrow> string" where
  "MCP_MODE pe = nullish (SNOWRAIL_MCP_MODE pe) ''core''"

definition isAdvanced :: "process_env \<Rightarrow> bool" where
  "isAdvanced pe = (MCP_MODE pe = ''advanced'' \<or> MCP_MODE pe = ''internal'')"

definition isInternal :: "process_env \<Rightarrow> bool" where
  "isInternal pe = (MCP_MODE pe = ''internal'')"

subsection \<open>Environment resolver\<close>

text \<open>
  \<^verbatim>\<open>BASE_URLS\<close> is an object literal with three own properties. A lookup of any other
  name is modelled as \<^verbatim>\<open>undefined\<close>; names that JavaScript objects inherit from
  \<^verbatim>\<open>Object.prototype\<close> (such as \<^verbatim>\<open>constructor\<close>) are not modelled.
\<close>

definition BASE_URLS :: "string \<Rightarrow> string option" where
  "BASE_URLS =
     [''development'' \<mapsto> ''http://localhost:4000'',
      ''staging'' \<mapsto> ''https://staging-api.snowrail.xyz'',
      ''production'' \<mapsto> ''https://api.snowrail.xyz'']"

definition DEFAULT_ENV :: "process_env \<Rightarrow> string" where
  "DEFAULT_ENV pe = nullish (SNOWRAIL_ENV pe) ''staging''"

definition DEFAULT_BASE_URL :: "process_env \<Rightarrow> string option" where
  "DEFAULT_BASE_URL pe = nullish_opt (SNOWRAIL_API_BASE pe) (BASE_URLS (DEFAULT_ENV pe))"

text \<open>What an invocation can fail with: the error \<^verbatim>\<open>resolveBaseUrl\<close> throws, the
  rejection of the platform's \<^verbatim>\<open>fetch\<close> (with its message), and the registry's
  refusal of a name that is already taken.\<close>

datatype failure =
    BaseUrlNotConfigured
  | FetchRejected string
  | AlreadyRegistered string

definition resolveBaseUrl ::
  "process_env \<Rightarrow> string option \<Rightarrow> string option \<Rightarrow> failure + string" where
  "resolveBaseUrl pe environment baseUrlOverride =
     (let fromEnvironment =
            (let env = nullish environment (DEFAULT_ENV pe);
                 url = nullish_opt (BASE_URLS env) (DEFAULT_BASE_URL pe)
             in (case url of
                   None \<Rightarrow> Inl BaseUrlNotConfigured
                 | Some u \<Rightarrow> if truthy u then Inr u else Inl BaseUrlNotConfigured))
      in (case baseUrlOverride of
            None \<Rightarrow> fromEnvironment
          | Some b \<Rightarrow> if truthy b then Inr b else fromEnvironment))"

section \<open>Tool registry\<close>

text \<open>
  The server's registry, reduced to what the mode gate decides: the names of the
  registered tools, in registration order.
\<close>

type_synonym server = "string list"

text \<open>
  Modelled from the spec: \<^verbatim>\<open>server.tool\<close> belongs to the protocol SDK, which is not
  part of the sources. Section 4.4 of the specification: registering a tool with the
  same name twice is a caller error and is rejected with an error.
\<close>

definition tool :: "string \<Rightarrow> server \<Rightarrow> failure + server" where
  "tool name srv = (if name \<in> set srv then Inl (AlreadyRegistered name) else Inr (srv @ [name]))"

fun tools :: "string list \<Rightarrow> server \<Rightarrow> failure + server" where
  "tools [] srv = Inr srv"
| "tools (name # names) srv =
     (case tool name srv of Inl e \<Rightarrow> Inl e | Inr srv' \<Rightarrow> tools names srv')"

text \<open>The module body: the \<^verbatim>\<open>server.tool\<close> calls in source order, the advanced ones
  inside \<^verbatim>\<open>if (isAdvanced)\<close>, the internal ones inside \<^verbatim>\<open>if (isInternal)\<close>.\<close>

definition register_core :: "server \<Rightarrow> failure + server" where
  "register_core =
     tools [''snowrail_health'', ''snowrail_agent_identity'', ''snowrail_agent_stats'',
            ''snowrail_agent_activity'', ''snowrail_treasury_balance'',
            ''snowrail_payroll_execute'', ''snowrail_payroll_get_by_id'',
            ''snowrail_payment_process'', ''snowrail_treasury_test'',
            ''snowrail_facilitator_health'', ''snowrail_process_a2a'']"

definition register_advanced :: "server \<Rightarrow> failure + server" where
  "register_advanced =
     tools [''snowrail_facilitator_validate'', ''snowrail_facilitator_verify'',
            ''snowrail_facilitator_settle'']"

definition register_internal :: "server \<Rightarrow> failure + server" where
  "register_internal =
     tools [''snowrail_x402_callback'', ''snowrail_auth_signup'', ''snowrail_auth_login'',
            ''snowrail_auth_me'', ''snowrail_dashboard'']"

definition load_module :: "process_env \<Rightarrow> failure + server" where
  "load_module pe =
     (case register_core [] of
        Inl e \<Rightarrow> Inl e
      | Inr s1 \<Rightarrow>
          (case (if isAdvanced pe then register_advanced s1 else Inr s1) of
             Inl e \<Rightarrow> Inl e
           | Inr s2 \<Rightarrow> (if isInternal pe then register_internal s2 else Inr s2)))"

text \<open>The tiers as the README's tables list them.\<close>

definition core_tier :: "string set" where
  "core_tier =
     {''snowrail_health'', ''snowrail_agent_identity'', ''snowrail_agent_stats'',
      ''snowrail_agent_activity'', ''snowrail_treasury_balance'', ''snowrail_payroll_execute'',
      ''snowrail_payroll_get_by_id'', ''snowrail_payment_process'', ''snowrail_treasury_test'',
      ''snowrail_facilitator_health'', ''snowrail_process_a2a''}"

definition advanced_tier :: "string set" where
  "advanced_tier =
     {''snowrail_facilitator_validate'', ''snowrail_facilitator_verify'',
      ''snowrail_facilitator_settle''}"

definition internal_tier :: "string set" where
  "internal_tier =
     {''snowrail_x402_callback'', ''snowrail_auth_signup'', ''snowrail_auth_login'',
      ''snowrail_auth_me'', ''snowrail_dashboard''}"

text \<open>The registered names as a set; \<open>None\<close> when loading the module failed.\<close>

definition registered :: "process_env \<Rightarrow> string set option" where
  "registered pe = (case load_module pe of Inl e \<Rightarrow> None | Inr srv \<Rightarrow> Some (set srv))"

section \<open>JavaScript values\<close>

subsection \<open>Numbers\<close>

text \<open>
  A JavaScript number is an IEEE 754 binary64 value: a finite value (a rational; \<open>Fin 0\<close>
  is \<^verbatim>\<open>+0\<close>), the negative zero, an infinity, or \<^verbatim>\<open>NaN\<close>.
\<close>

datatype jsnum = Fin rat | NegZero | PosInfinity | NegInfinity | NaN

definition signed_zero :: "bool \<Rightarrow> jsnum" where
  "signed_zero neg = (if neg then NegZero else Fin 0)"

definition signed_infinity :: "bool \<Rightarrow> jsnum" where
  "signed_infinity neg = (if neg then NegInfinity else PosInfinity)"

text \<open>\<open>ilog2 x\<close> is the binary exponent of a positive rational: \<open>2 powi ilog2 x \<le> x < 2 powi (ilog2 x + 1)\<close>.\<close>

definition ilog2 :: "rat \<Rightarrow> int" where
  "ilog2 x =
     (let (n, d) = quotient_of x;
          e = bitlen n - bitlen d
      in if 2 powi e \<le> x then e else e - 1)"

text \<open>Rounding to the nearest integer, a tie to the even one.\<close>

definition round_half_even :: "rat \<Rightarrow> int" where
  "round_half_even x =
     (let f = \<lfloor>x\<rfloor>; r = x - of_int f
      in if r < 1 / 2 then f else if 1 / 2 < r then f + 1 else if even f then f else f + 1)"

text \<open>
  The binary64 value nearest to the real number of sign \<open>neg\<close> and magnitude \<open>x\<close> (round to
  nearest, ties to even): 53 significant bits, the exponent at least \<open>-1022\<close> (below
  it the values are subnormal, spaced \<open>2 powi -1074\<close> apart), and an infinity when
  the rounded value passes the largest exponent \<open>1023\<close>.
\<close>

definition round_to_double :: "bool \<Rightarrow> rat \<Rightarrow> jsnum" where
  "round_to_double neg x =
     (if x = 0 then signed_zero neg
      else
        let e = max (ilog2 x) (- 1022);
            q = 2 powi (e - 52);
            m = round_half_even (x / q)
        in if 1023 < e \<or> (e = 1023 \<and> 2 ^ 53 \<le> m) then signed_infinity neg
           else if m = 0 then signed_zero neg
           else Fin ((if neg then - 1 else 1) * of_int m * q))"

text \<open>The number a decimal literal denotes, as the engine reads it.\<close>

definition to_double :: "rat \<Rightarrow> jsnum" where
  "to_double x = round_to_double (x < 0) \<bar>x\<bar>"

definition is_negative :: "jsnum \<Rightarrow> bool" where
  "is_negative a =
     (case a of Fin r \<Rightarrow> r < 0 | NegZero \<Rightarrow> True | PosInfinity \<Rightarrow> False
      | NegInfinity \<Rightarrow> True | NaN \<Rightarrow> False)"

definition is_zero :: "jsnum \<Rightarrow> bool" where
  "is_zero a = (case a of Fin r \<Rightarrow> r = 0 | NegZero \<Rightarrow> True | _ \<Rightarrow> False)"

definition is_infinite :: "jsnum \<Rightarrow> bool" where
  "is_infinite a = (case a of PosInfinity \<Rightarrow> True | NegInfinity \<Rightarrow> True | _ \<Rightarrow> False)"

definition magnitude :: "jsnum \<Rightarrow> rat" where
  "magnitude a = (case a of Fin r \<Rightarrow> \<bar>r\<bar> | _ \<Rightarrow> 0)"

text \<open>The operator \<^verbatim>\<open>*\<close> on numbers: the exact product, rounded.\<close>

definition js_mul :: "jsnum \<Rightarrow> jsnum \<Rightarrow> jsnum" where
  "js_mul a b =
     (if a = NaN \<or> b = NaN then NaN
      else if (is_infinite a \<and> is_zero b) \<or> (is_zero a \<and> is_infinite b) then NaN
      else if is_infinite a \<or> is_infinite b
        then signed_infinity (is_negative a \<noteq> is_negative b)
      else round_to_double (is_negative a \<noteq> is_negative b) (magnitude a * magnitude b))"

text \<open>
  \<^verbatim>\<open>Math.round\<close>: the nearest integer, a tie towards \<open>+\<infinity>\<close>; a value that is not finite
  is returned as it is, and a negative value that rounds to zero gives \<^verbatim>\<open>-0\<close>.
\<close>

definition Math_round :: "jsnum \<Rightarrow> jsnum" where
  "Math_round a =
     (case a of
        Fin r \<Rightarrow> (let n = \<lfloor>r + 1 / 2\<rfloor> in if n = 0 \<and> r < 0 then NegZero else Fin (of_int n))
      | _ \<Rightarrow> a)"

subsection \<open>Values\<close>

text \<open>
  Strings are byte strings (the UTF-8 form of the JavaScript string). An object is the
  list of its own properties in insertion order; a property whose value is
  \<^verbatim>\<open>undefined\<close> is present with value \<open>JUndefined\<close>.
\<close>

datatype jsval =
    JUndefined
  | JNull
  | JBool bool
  | JNum jsnum
  | JStr string
  | JArr "jsval list"
  | JObj "(string \<times> jsval) list"

fun set_prop :: "string \<Rightarrow> 'v \<Rightarrow> (string \<times> 'v) list \<Rightarrow> (string \<times> 'v) list" where
  "set_prop k v [] = [(k, v)]"
| "set_prop k v (p # ps) = (if fst p = k then (k, v) # ps else p # set_prop k v ps)"

text \<open>Reading a property: \<^verbatim>\<open>undefined\<close> when it is absent or the value is no object.\<close>

definition get_prop :: "string \<Rightarrow> jsval \<Rightarrow> jsval" where
  "get_prop k v =
     (case v of
        JObj ps \<Rightarrow> (case map_of ps k of None \<Rightarrow> JUndefined | Some x \<Rightarrow> x)
      | _ \<Rightarrow> JUndefined)"

definition of_optional :: "string option \<Rightarrow> jsval" where
  "of_optional s = (case s of None \<Rightarrow> JUndefined | Some t \<Rightarrow> JStr t)"

section \<open>\<^verbatim>\<open>JSON.parse\<close>\<close>

text \<open>
  The platform's parser, after ECMA-404: a lexer that reads the text character by
  character, and a pushdown automaton over the tokens. \<open>None\<close> stands for the
  \<^verbatim>\<open>SyntaxError\<close> the parser throws.
\<close>

datatype token =
    TLBrace | TRBrace | TLBracket | TRBracket | TColon | TComma
  | TString string | TNumber jsnum | TTrue | TFalse | TNull

subsection \<open>Number literals\<close>

definition is_digit :: "char \<Rightarrow> bool" where
  "is_digit c = (c \<in> set ''0123456789'')"

definition digits_val :: "string \<Rightarrow> int" where
  "digits_val ds = foldl (\<lambda>n c. 10 * n + (of_char c - 48)) 0 ds"

definition strip_char :: "char \<Rightarrow> string \<Rightarrow> string option" where
  "strip_char c s = (case s of [] \<Rightarrow> None | x # r \<Rightarrow> if x = c then Some r else None)"

text \<open>
  \<^verbatim>\<open>-? (0 | [1-9][0-9]*) (. [0-9]+)? ([eE] [+-]? [0-9]+)?\<close>, and the binary64 value of
  the literal.
\<close>

definition number_of_text :: "string \<Rightarrow> jsnum option" where
  "number_of_text s =
     (let neg = (strip_char CHR ''-'' s \<noteq> None);
          s1 = nullish (strip_char CHR ''-'' s) s;
          ip = takeWhile is_digit s1;
          s2 = dropWhile is_digit s1;
          has_frac = (strip_char CHR ''.'' s2 \<noteq> None);
          fp = (if has_frac then takeWhile is_digit (tl s2) else []);
          s3 = (if has_frac then dropWhile is_digit (tl s2) else s2);
          has_exp = (strip_char CHR ''e'' s3 \<noteq> None \<or> strip_char CHR ''E'' s3 \<noteq> None);
          s4 = (if has_exp then tl s3 else s3);
          eneg = (has_exp \<and> strip_char CHR ''-'' s4 \<noteq> None);
          s5 = (if has_exp \<and> (strip_char CHR ''-'' s4 \<noteq> None \<or> strip_char CHR ''+'' s4 \<noteq> None)
                then tl s4 else s4);
          ep = (if has_exp then takeWhile is_digit s5 else []);
          s6 = (if has_exp then dropWhile is_digit s5 else s5);
          scale = (if eneg then - digits_val ep else digits_val ep) - int (length fp)
      in if ip = [] then None
         else if 1 < length ip \<and> hd ip = CHR ''0'' then None
         else if has_frac \<and> fp = [] then None
         else if has_exp \<and> ep = [] then None
         else if s6 \<noteq> [] then None
         else Some (round_to_double neg (of_int (digits_val (ip @ fp)) * 10 powi scale)))"

subsection \<open>String literals\<close>

text \<open>
  The content of a string literal: a byte of the text, or the code unit of a
  \<^verbatim>\<open>\uXXXX\<close> escape. Escaped code units become their UTF-8 bytes; an escaped surrogate
  pair becomes the four bytes of its code point.
\<close>

datatype sitem = Byte char | CodeUnit int

definition utf8 :: "int \<Rightarrow> string" where
  "utf8 n =
     (if n < 0x80 then [char_of n]
      else if n < 0x800 then [char_of (0xC0 + n div 0x40), char_of (0x80 + n mod 0x40)]
      else if n < 0x10000 then
        [char_of (0xE0 + n div 0x1000), char_of (0x80 + n div 0x40 mod 0x40),
         char_of (0x80 + n mod 0x40)]
      else
        [char_of (0xF0 + n div 0x40000), char_of (0x80 + n div 0x1000 mod 0x40),
         char_of (0x80 + n div 0x40 mod 0x40), char_of (0x80 + n mod 0x40)])"

fun decode_items :: "sitem list \<Rightarrow> string" where
  "decode_items [] = []"
| "decode_items (Byte c # r) = c # decode_items r"
| "decode_items (CodeUnit hi # CodeUnit lo # r) =
     (if 0xD800 \<le> hi \<and> hi < 0xDC00 \<and> 0xDC00 \<le> lo \<and> lo < 0xE000
      then utf8 (0x10000 + (hi - 0xD800) * 0x400 + (lo - 0xDC00)) @ decode_items r
      else utf8 hi @ decode_items (CodeUnit lo # r))"
| "decode_items (CodeUnit u # r) = utf8 u @ decode_items r"

definition simple_escape :: "char \<Rightarrow> char option" where
  "simple_escape c =
     (if c = CHR 0x22 then Some (CHR 0x22)
      else if c = CHR 0x5C then Some (CHR 0x5C)
      else if c = CHR ''/'' then Some (CHR ''/'')
      else if c = CHR ''b'' then Some (CHR 0x08)
      else if c = CHR ''f'' then Some (CHR 0x0C)
      else if c = CHR ''n'' then Some (CHR 0x0A)
      else if c = CHR ''r'' then Some (CHR 0x0D)
      else if c = CHR ''t'' then Some (CHR 0x09)
      else None)"

definition hex_digit :: "char \<Rightarrow> int option" where
  "hex_digit c =
     (if is_digit c then Some (of_char c - 48)
      else if c \<in> set ''abcdef'' then Some (of_char c - 87)
      else if c \<in> set ''ABCDEF'' then Some (of_char c - 55)
      else None)"

subsection \<open>Lexer\<close>

definition is_ws :: "char \<Rightarrow> bool" where
  "is_ws c = (c = CHR 0x20 \<or> c = CHR 0x09 \<or> c = CHR 0x0A \<or> c = CHR 0x0D)"

definition is_number_char :: "char \<Rightarrow> bool" where
  "is_number_char c = (is_digit c \<or> c \<in> set ''+-.eE'')"

text \<open>What may follow a number or a literal name directly: white space or one of
  \<^verbatim>\<open>, ] }\<close>. (Any other character there is a syntax error of the grammar.)\<close>

definition delimiter :: "char \<Rightarrow> token list option" where
  "delimiter c =
     (if is_ws c then Some []
      else if c = CHR '','' then Some [TComma]
      else if c = CHR '']'' then Some [TRBracket]
      else if c = CHR ''}'' then Some [TRBrace]
      else None)"

definition emit :: "token list \<Rightarrow> token list option \<Rightarrow> token list option" where
  "emit ts r = map_option (\<lambda>rest. ts @ rest) r"

datatype lexmode =
    Idle
  | InNumber string
  | InName string token
  | InString "sitem list"
  | InEscape "sitem list"
  | InUnicode "sitem list" "int list"

fun tokenize :: "lexmode \<Rightarrow> string \<Rightarrow> token list option" where
  "tokenize Idle [] = Some []"
| "tokenize (InNumber acc) [] = map_option (\<lambda>n. [TNumber n]) (number_of_text acc)"
| "tokenize (InName rest tok) [] = (if rest = [] then Some [tok] else None)"
| "tokenize (InString items) [] = None"
| "tokenize (InEscape items) [] = None"
| "tokenize (InUnicode items ds) [] = None"
| "tokenize Idle (c # cs) =
     (if is_ws c then tokenize Idle cs
      else if c = CHR ''{'' then emit [TLBrace] (tokenize Idle cs)
      else if c = CHR ''}'' then emit [TRBrace] (tokenize Idle cs)
      else if c = CHR ''['' then emit [TLBracket] (tokenize Idle cs)
      else if c = CHR '']'' then emit [TRBracket] (tokenize Idle cs)
      else if c = CHR '':'' then emit [TColon] (tokenize Idle cs)
      else if c = CHR '','' then emit [TComma] (tokenize Idle cs)
      else if c = CHR 0x22 then tokenize (InString []) cs
      else if c = CHR ''-'' \<or> is_digit c then tokenize (InNumber [c]) cs
      else if c = CHR ''t'' then tokenize (InName ''rue'' TTrue) cs
      else if c = CHR ''f'' then tokenize (InName ''alse'' TFalse) cs
      else if c = CHR ''n'' then tokenize (InName ''ull'' TNull) cs
      else None)"
| "tokenize (InNumber acc) (c # cs) =
     (if is_number_char c then tokenize (InNumber (acc @ [c])) cs
      else (case (number_of_text acc, delimiter c) of
              (Some n, Some ts) \<Rightarrow> emit (TNumber n # ts) (tokenize Idle cs)
            | _ \<Rightarrow> None))"
| "tokenize (InName rest tok) (c # cs) =
     (case rest of
        [] \<Rightarrow> (case delimiter c of Some ts \<Rightarrow> emit (tok # ts) (tokenize Idle cs) | None \<Rightarrow> None)
      | x # rest' \<Rightarrow> if c = x then tokenize (InName rest' tok) cs else None)"
| "tokenize (InString items) (c # cs) =
     (if c = CHR 0x22 then emit [TString (decode_items items)] (tokenize Idle cs)
      else if c = CHR 0x5C then tokenize (InEscape items) cs
      else if (of_char c :: int) < 0x20 then None
      else tokenize (InString (items @ [Byte c])) cs)"
| "tokenize (InEscape items) (c # cs) =
     (if c = CHR ''u'' then tokenize (InUnicode items []) cs
      else (case simple_escape c of
              None \<Rightarrow> None
            | Some b \<Rightarrow> tokenize (InString (items @ [Byte b])) cs))"
| "tokenize (InUnicode items ds) (c # cs) =
     (case hex_digit c of
        None \<Rightarrow> None
      | Some d \<Rightarrow>
          if length ds = 3
          then tokenize (InString (items @ [CodeUnit (foldl (\<lambda>n h. 16 * n + h) 0 (ds @ [d]))])) cs
          else tokenize (InUnicode items (ds @ [d])) cs)"

subsection \<open>Parser\<close>

datatype frame =
    InArr "jsval list"
  | InObj "(string \<times> jsval) list"
  | InMember "(string \<times> jsval) list" string

datatype expect = Value | ValueOrEnd | KeyOrEnd | Key | Colon | Separator | Done jsval

text \<open>A finished value goes to the enclosing array or member, or is the result.\<close>

definition deliver :: "jsval \<Rightarrow> frame list \<Rightarrow> (expect \<times> frame list) option" where
  "deliver v st =
     (case st of
        [] \<Rightarrow> Some (Done v, [])
      | InArr xs # st' \<Rightarrow> Some (Separator, InArr (xs @ [v]) # st')
      | InMember ps k # st' \<Rightarrow> Some (Separator, InObj (set_prop k v ps) # st')
      | InObj ps # st' \<Rightarrow> None)"

definition start_value :: "token \<Rightarrow> frame list \<Rightarrow> (expect \<times> frame list) option" where
  "start_value t st =
     (case t of
        TLBracket \<Rightarrow> Some (ValueOrEnd, InArr [] # st)
      | TLBrace \<Rightarrow> Some (KeyOrEnd, InObj [] # st)
      | TString s \<Rightarrow> deliver (JStr s) st
      | TNumber n \<Rightarrow> deliver (JNum n) st
      | TTrue \<Rightarrow> deliver (JBool True) st
      | TFalse \<Rightarrow> deliver (JBool False) st
      | TNull \<Rightarrow> deliver JNull st
      | _ \<Rightarrow> None)"

definition start_member :: "token \<Rightarrow> frame list \<Rightarrow> (expect \<times> frame list) option" where
  "start_member t st =
     (case (t, st) of
        (TString k, InObj ps # st') \<Rightarrow> Some (Colon, InMember ps k # st')
      | _ \<Rightarrow> None)"

definition close_array :: "frame list \<Rightarrow> (expect \<times> frame list) option" where
  "close_array st = (case st of InArr xs # st' \<Rightarrow> deliver (JArr xs) st' | _ \<Rightarrow> None)"

definition close_object :: "frame list \<Rightarrow> (expect \<times> frame list) option" where
  "close_object st = (case st of InObj ps # st' \<Rightarrow> deliver (JObj ps) st' | _ \<Rightarrow> None)"

definition step :: "expect \<times> frame list \<Rightarrow> token \<Rightarrow> (expect \<times> frame list) option" where
  "step s t =
     (let st = snd s in
      case fst s of
        Value \<Rightarrow> start_value t st
      | ValueOrEnd \<Rightarrow> if t = TRBracket then close_array st else start_value t st
      | KeyOrEnd \<Rightarrow> if t = TRBrace then close_object st else start_member t st
      | Key \<Rightarrow> start_member t st
      | Colon \<Rightarrow> if t = TColon then Some (Value, st) else None
      | Separator \<Rightarrow>
          if t = TComma
          then (case st of
                  InArr xs # st' \<Rightarrow> Some (Value, st)
                | InObj ps # st' \<Rightarrow> Some (Key, st)
                | _ \<Rightarrow> None)
          else if t = TRBracket then close_array st
          else if t = TRBrace then close_object st
          else None
      | Done v \<Rightarrow> None)"

fun run :: "expect \<times> frame list \<Rightarrow> token list \<Rightarrow> jsval option" where
  "run s [] = (case fst s of Done v \<Rightarrow> Some v | _ \<Rightarrow> None)"
| "run s (t # ts) = (case step s t of None \<Rightarrow> None | Some s' \<Rightarrow> run s' ts)"

definition JSON_parse :: "string \<Rightarrow> jsval option" where
  "JSON_parse text = (case tokenize Idle text of None \<Rightarrow> None | Some ts \<Rightarrow> run (Value, []) ts)"

section \<open>Request bridge\<close>

text \<open>
  The platform the module runs on, as far as \<^verbatim>\<open>snowrailFetch\<close> and \<^verbatim>\<open>toToolResult\<close> use
  it. \<open>fetch url init\<close> is the outcome of \<^verbatim>\<open>await fetch(url, init)\<close> followed by
  \<^verbatim>\<open>await res.text()\<close>: \<open>Inr\<close> the HTTP response (status code and body text) when one
  was received, \<open>Inl\<close> the rejection when the network call failed (connection refused,
  DNS failure, malformed URL, a body that could not be read).
  \<open>JSON_stringify indent v\<close> is \<^verbatim>\<open>JSON.stringify(v, null, indent)\<close>.
\<close>

record RequestInit =
  init_method :: string
  init_headers :: "(string \<times> string) list"
  init_body :: "string option"

record Response =
  res_status :: nat
  res_text :: string

record platform =
  fetch :: "string \<Rightarrow> RequestInit \<Rightarrow> string + Response"
  JSON_stringify :: "nat \<Rightarrow> jsval \<Rightarrow> string"

text \<open>\<^verbatim>\<open>SnowrailFetchOptions\<close>; an absent \<^verbatim>\<open>body\<close> is \<open>JUndefined\<close>.\<close>

record SnowrailFetchOptions =
  http_method :: "string option"
  headers :: "(string \<times> string) list option"
  body :: jsval
  environment :: "string option"
  baseUrlOverride :: "string option"

text \<open>What \<^verbatim>\<open>snowrailFetch\<close> resolves to.\<close>

record envelope =
  url :: string
  status :: nat
  data :: jsval

text \<open>\<^verbatim>\<open>{ "Content-Type": "application/json", ...headers }\<close>\<close>

definition finalHeaders :: "(string \<times> string) list \<Rightarrow> (string \<times> string) list" where
  "finalHeaders hs =
     foldl (\<lambda>acc (k, v). set_prop k v acc) [(''Content-Type'', ''application/json'')] hs"

text \<open>The \<^verbatim>\<open>try\<close> block that reads the body text.\<close>

definition parse_body :: "string \<Rightarrow> jsval" where
  "parse_body text =
     (if truthy text
      then (case JSON_parse text of None \<Rightarrow> JStr text | Some v \<Rightarrow> v)
      else JNull)"

definition build_init :: "platform \<Rightarrow> SnowrailFetchOptions \<Rightarrow> RequestInit" where
  "build_init pf options =
     (let meth = nullish (http_method options) ''GET'';
          init = \<lparr>init_method = meth,
                  init_headers = finalHeaders (nullish (headers options) []),
                  init_body = None\<rparr>
      in if body options \<noteq> JUndefined \<and> meth \<noteq> ''GET''
         then init\<lparr>init_body := Some (JSON_stringify pf 0 (body options))\<rparr>
         else init)"

definition snowrailFetch ::
  "process_env \<Rightarrow> platform \<Rightarrow> string \<Rightarrow> SnowrailFetchOptions \<Rightarrow> failure + envelope" where
  "snowrailFetch pe pf path options =
     (case resolveBaseUrl pe (environment options) (baseUrlOverride options) of
        Inl e \<Rightarrow> Inl e
      | Inr baseUrl \<Rightarrow>
          (let target = baseUrl @ path in
           case fetch pf target (build_init pf options) of
             Inl rejection \<Rightarrow> Inl (FetchRejected rejection)
           | Inr res \<Rightarrow>
               Inr \<lparr>url = target, status = res_status res, data = parse_body (res_text res)\<rparr>))"

section \<open>Result formatter\<close>

record content_block =
  block_type :: string
  block_text :: string

record tool_result =
  content :: "content_block list"

definition envelope_value :: "envelope \<Rightarrow> jsval" where
  "envelope_value r =
     JObj [(''url'', JStr (url r)), (''status'', JNum (Fin (of_nat (status r)))),
           (''data'', data r)]"

definition toToolResult :: "platform \<Rightarrow> jsval \<Rightarrow> tool_result" where
  "toToolResult pf payload =
     \<lparr>content = [\<lparr>block_type = ''text'', block_text = JSON_stringify pf 2 payload\<rparr>]\<rparr>"

definition respond :: "platform \<Rightarrow> failure + envelope \<Rightarrow> failure + tool_result" where
  "respond pf result =
     (case result of Inl e \<Rightarrow> Inl e | Inr r \<Rightarrow> Inr (toToolResult pf (envelope_value r)))"

section \<open>Tool handlers\<close>

text \<open>
  A handler receives the arguments its schema has validated: every field has its
  declared type, an optional field may be absent, and a field with a default holds
  the default when the caller left it out. The fields \<^verbatim>\<open>environment\<close>, \<^verbatim>\<open>baseUrl\<close> and
  \<^verbatim>\<open>xPayment\<close>, which several schemas share, carry the tool's prefix here.
\<close>

subsection \<open>\<^verbatim>\<open>snowrail_payment_process\<close>\<close>

record payment_args =
  pay_environment :: "string option"
  pay_baseUrl :: "string option"
  pay_xPayment :: string
  recipientEmail :: string
  amount :: jsnum
  currency :: string
  firstName :: string
  lastName :: string
  telephone :: "string option"
  addressLine1 :: string
  city :: string
  state :: string
  postalCode :: string
  countryCode :: string
  description :: "string option"

definition payment_body :: "payment_args \<Rightarrow> jsval" where
  "payment_body args =
     JObj [(''recipient'', JStr (recipientEmail args)),
           (''amount'', JNum (amount args)),
           (''currency'', JStr (currency args)),
           (''customer'',
              JObj [(''first_name'', JStr (firstName args)),
                    (''last_name'', JStr (lastName args)),
                    (''email_address'', JStr (recipientEmail args)),
                    (''telephone_number'', of_optional (telephone args)),
                    (''mailing_address'',
                       JObj [(''address_line1'', JStr (addressLine1 args)),
                             (''city'', JStr (city args)),
                             (''state'', JStr (state args)),
                             (''postal_code'', JStr (postalCode args)),
                             (''country_code'', JStr (countryCode args))])]),
           (''payment'',
              JObj [(''amount'', JNum (Math_round (js_mul (amount args) (Fin 100)))),
                    (''currency'', JStr (currency args)),
                    (''recipient'', JStr (recipientEmail args)),
                    (''description'', JStr (nullish (description args) ''SnowRail MCP payment''))])]"

definition snowrail_payment_process ::
  "process_env \<Rightarrow> platform \<Rightarrow> payment_args \<Rightarrow> failure + tool_result" where
  "snowrail_payment_process pe pf args =
     respond pf
       (snowrailFetch pe pf ''/api/payment/process''
          \<lparr>http_method = Some ''POST'',
           headers = Some [(''X-PAYMENT'', pay_xPayment args)],
           body = payment_body args,
           environment = pay_environment args,
           baseUrlOverride = pay_baseUrl args\<rparr>)"

subsection \<open>\<^verbatim>\<open>snowrail_process_a2a\<close>\<close>

record a2a_args =
  a2a_environment :: "string option"
  a2a_baseUrl :: "string option"
  a2a_xPayment :: string
  messageType :: string
  messagePayload :: string
  agentId :: "string option"
  agentName :: "string option"

text \<open>A string that may be absent is truthy when it is present and not empty.\<close>

definition truthy_opt :: "string option \<Rightarrow> bool" where
  "truthy_opt s = (case s of None \<Rightarrow> False | Some t \<Rightarrow> truthy t)"

definition a2a_payload :: "string \<Rightarrow> jsval" where
  "a2a_payload raw =
     (case JSON_parse raw of None \<Rightarrow> JStr raw | Some v \<Rightarrow> v)"

definition a2a_message :: "a2a_args \<Rightarrow> (string \<times> jsval) list" where
  "a2a_message args =
     (let message = [(''type'', JStr (messageType args)),
                     (''payload'', a2a_payload (messagePayload args))]
      in if truthy_opt (agentId args)
         then set_prop ''agent''
                (JObj ((''id'', of_optional (agentId args)) #
                       (if truthy_opt (agentName args)
                        then [(''name'', of_optional (agentName args))] else [])))
                message
         else message)"

definition snowrail_process_a2a ::
  "process_env \<Rightarrow> platform \<Rightarrow> a2a_args \<Rightarrow> failure + tool_result" where
  "snowrail_process_a2a pe pf args =
     respond pf
       (snowrailFetch pe pf ''/process''
          \<lparr>http_method = Some ''POST'',
           headers = Some [(''X-PAYMENT'', a2a_xPayment args)],
           body = JObj [(''message'', JObj (a2a_message args))],
           environment = a2a_environment args,
           baseUrlOverride = a2a_baseUrl args\<rparr>)"

section \<open>Test doubles\<close>

text \<open>A process with no variable set, and a stub transport that answers every request
  with one fixed response.\<close>

definition no_env :: process_env where
  "no_env = \<lparr>SNOWRAIL_MCP_MODE = None, SNOWRAIL_ENV = None, SNOWRAIL_API_BASE = None\<rparr>"

definition stub_platform :: "nat \<Rightarrow> string \<Rightarrow> platform" where
  "stub_platform code text =
     \<lparr>fetch = (\<lambda>target init. Inr \<lparr>res_status = code, res_text = text\<rparr>),
      JSON_stringify = (\<lambda>indent v. [])\<rparr>"

text \<open>The default of the parameter \<^verbatim>\<open>options\<close>: the empty object.\<close>

definition no_options :: SnowrailFetchOptions where
  "no_options =
     \<lparr>http_method = None, headers = None, body = JUndefined, environment = None,
      baseUrlOverride = None\<rparr>"

text \<open>A validated invocation of the payment-process tool with the given amount.\<close>

definition payment_call :: "jsnum \<Rightarrow> payment_args" where
  "payment_call a =
     \<lparr>pay_environment = None, pay_baseUrl = None, pay_xPayment = ''demo-token'',
      recipientEmail = ''ada@example.com'', amount = a, currency = ''USD'',
      firstName = ''Ada'', lastName = ''Lovelace'', telephone = None,
      addressLine1 = ''12 St James Square'', city = ''London'', state = ''LND'',
      postalCode = ''SW1Y 4JH'', countryCode = ''GB'', description = None\<rparr>"

section \<open>Mode gate and registry\<close>

lemma register_core_empty:
  "register_core [] =
     Inr [''snowrail_health'', ''snowrail_agent_identity'', ''snowrail_agent_stats'',
          ''snowrail_agent_activity'', ''snowrail_treasury_balance'',
          ''snowrail_payroll_execute'', ''snowrail_payroll_get_by_id'',
          ''snowrail_payment_process'', ''snowrail_treasury_test'',
          ''snowrail_facilitator_health'', ''snowrail_process_a2a'']"
  by (simp add: register_core_def tool_def)

lemma load_module_core:
  assumes "\<not> isAdvanced pe" and "\<not> isInternal pe"
  shows "registered pe = Some core_tier"
  using assms
  by (simp add: registered_def load_module_def register_core_empty core_tier_def)

lemma load_module_advanced:
  assumes "isAdvanced pe" and "\<not> isInternal pe"
  shows "registered pe = Some (core_tier \<union> advanced_tier)"
  using assms
  by (simp add: registered_def load_module_def register_core_empty register_advanced_def
      tool_def core_tier_def advanced_tier_def insert_commute)

lemma load_module_internal:
  assumes "isAdvanced pe" and "isInternal pe"
  shows "registered pe = Some (core_tier \<union> advanced_tier \<union> internal_tier)"
  using assms
  by (simp add: registered_def load_module_def register_core_empty register_advanced_def
      register_internal_def tool_def core_tier_def advanced_tier_def internal_tier_def
      insert_commute)

lemma tiers_disjoint:
  "core_tier \<inter> advanced_tier = {}" "core_tier \<inter> internal_tier = {}"
  "advanced_tier \<inter> internal_tier = {}"
  by (simp_all add: core_tier_def advanced_tier_def internal_tier_def)

text \<open>
  C1. For each of the three mode values the set of registered tool names is exactly
  the tier union: \<^verbatim>\<open>core\<close> registers the core tools only, \<^verbatim>\<open>advanced\<close> the core and the
  three facilitator tools, \<^verbatim>\<open>internal\<close> the core, the advanced and the five internal
  tools; nothing else and nothing less.
\<close>

theorem registered_is_tier_union:
  "(MCP_MODE pe = ''core'' \<longrightarrow> registered pe = Some core_tier) \<and>
   (MCP_MODE pe = ''advanced'' \<longrightarrow> registered pe = Some (core_tier \<union> advanced_tier)) \<and>
   (MCP_MODE pe = ''internal'' \<longrightarrow>
      registered pe = Some (core_tier \<union> advanced_tier \<union> internal_tier))"
proof (intro conjI impI)
  assume "MCP_MODE pe = ''core''"
  then have "\<not> isAdvanced pe" "\<not> isInternal pe"
    by (simp_all add: isAdvanced_def isInternal_def)
  then show "registered pe = Some core_tier" by (rule load_module_core)
next
  assume "MCP_MODE pe = ''advanced''"
  then have "isAdvanced pe" "\<not> isInternal pe"
    by (simp_all add: isAdvanced_def isInternal_def)
  then show "registered pe = Some (core_tier \<union> advanced_tier)" by (rule load_module_advanced)
next
  assume "MCP_MODE pe = ''internal''"
  then have "isAdvanced pe" "isInternal pe"
    by (simp_all add: isAdvanced_def isInternal_def)
  then show "registered pe = Some (core_tier \<union> advanced_tier \<union> internal_tier)"
    by (rule load_module_internal)
qed

theorem registered_is_tier_union_witness:
  "MCP_MODE (no_env\<lparr>SNOWRAIL_MCP_MODE := Some ''core''\<rparr>) = ''core'' \<and>
   registered (no_env\<lparr>SNOWRAIL_MCP_MODE := Some ''core''\<rparr>) = Some core_tier \<and>
   MCP_MODE (no_env\<lparr>SNOWRAIL_MCP_MODE := Some ''advanced''\<rparr>) = ''advanced'' \<and>
   registered (no_env\<lparr>SNOWRAIL_MCP_MODE := Some ''advanced''\<rparr>) =
     Some (core_tier \<union> advanced_tier) \<and>
   MCP_MODE (no_env\<lparr>SNOWRAIL_MCP_MODE := Some ''internal''\<rparr>) = ''internal'' \<and>
   registered (no_env\<lparr>SNOWRAIL_MCP_MODE := Some ''internal''\<rparr>) =
     Some (core_tier \<union> advanced_tier \<union> internal_tier)"
  using registered_is_tier_union [of "no_env\<lparr>SNOWRAIL_MCP_MODE := Some ''core''\<rparr>"]
    registered_is_tier_union [of "no_env\<lparr>SNOWRAIL_MCP_MODE := Some ''advanced''\<rparr>"]
    registered_is_tier_union [of "no_env\<lparr>SNOWRAIL_MCP_MODE := Some ''internal''\<rparr>"]
  by (simp add: MCP_MODE_def nullish_def no_env_def)

text \<open>
  C10. For every mode configuration other than exactly \<^verbatim>\<open>advanced\<close> or \<^verbatim>\<open>internal\<close>
  (unset, empty or unrecognised), loading the module succeeds and registers exactly
  the core tier: no advanced and no internal tool.
\<close>

theorem other_modes_register_core_only:
  assumes "SNOWRAIL_MCP_MODE pe \<noteq> Some ''advanced''"
    and "SNOWRAIL_MCP_MODE pe \<noteq> Some ''internal''"
  shows "registered pe = Some core_tier \<and>
         core_tier \<inter> (advanced_tier \<union> internal_tier) = {}"
proof -
  from assms have "MCP_MODE pe \<noteq> ''advanced''" "MCP_MODE pe \<noteq> ''internal''"
    by (auto simp: MCP_MODE_def nullish_def split: option.splits)
  then have "\<not> isAdvanced pe" "\<not> isInternal pe"
    by (simp_all add: isAdvanced_def isInternal_def)
  then have "registered pe = Some core_tier" by (rule load_module_core)
  then show ?thesis using tiers_disjoint by auto
qed

theorem other_modes_register_core_only_witness:
  "registered no_env = Some core_tier \<and>
   registered (no_env\<lparr>SNOWRAIL_MCP_MODE := Some ''''\<rparr>) = Some core_tier \<and>
   registered (no_env\<lparr>SNOWRAIL_MCP_MODE := Some ''Internal''\<rparr>) = Some core_tier"
  using other_modes_register_core_only [of no_env]
    other_modes_register_core_only [of "no_env\<lparr>SNOWRAIL_MCP_MODE := Some ''''\<rparr>"]
    other_modes_register_core_only [of "no_env\<lparr>SNOWRAIL_MCP_MODE := Some ''Internal''\<rparr>"]
  by (simp add: no_env_def)

section \<open>Environment resolver\<close>

text \<open>
  C3, as the specification states it, fails: an override that is the empty string is
  supplied and does not win. With the environment \<^verbatim>\<open>production\<close> the call returns the
  production URL, not the override.
\<close>

theorem empty_override_does_not_win:
  "resolveBaseUrl no_env (Some ''production'') (Some '''') = Inr ''https://api.snowrail.xyz'' \<and>
   resolveBaseUrl no_env (Some ''production'') (Some '''') \<noteq> Inr ''''"
  by (simp add: resolveBaseUrl_def no_env_def nullish_def nullish_opt_def truthy_def
      BASE_URLS_def DEFAULT_ENV_def DEFAULT_BASE_URL_def)

text \<open>
  C3, amended. For every call to \<^verbatim>\<open>resolveBaseUrl\<close> with a non-empty override string, the
  returned base URL is that override, whatever the environment argument and the
  process configuration are.
\<close>

theorem nonempty_override_wins:
  assumes "b \<noteq> []"
  shows "resolveBaseUrl pe env (Some b) = Inr b"
  using assms by (simp add: resolveBaseUrl_def truthy_def Let_def)

theorem nonempty_override_wins_witness:
  "resolveBaseUrl (no_env\<lparr>SNOWRAIL_ENV := Some ''production''\<rparr>) (Some ''development'')
     (Some ''http://127.0.0.1:9'') = Inr ''http://127.0.0.1:9''"
  using nonempty_override_wins [of "''http://127.0.0.1:9''"
      "no_env\<lparr>SNOWRAIL_ENV := Some ''production''\<rparr>" "Some ''development''"]
  by simp

text \<open>
  C4. With no override, each of the three valid environment names resolves to its
  entry of the fixed table (\<^verbatim>\<open>production\<close> to the production URL literal), whatever the
  process configuration is; and with no environment argument, no override and
  \<^verbatim>\<open>SNOWRAIL_ENV\<close> unset, the result is the staging URL.
\<close>

theorem environment_resolves_to_table_entry:
  "resolveBaseUrl pe (Some ''development'') None = Inr ''http://localhost:4000'' \<and>
   resolveBaseUrl pe (Some ''staging'') None = Inr ''https://staging-api.snowrail.xyz'' \<and>
   resolveBaseUrl pe (Some ''production'') None = Inr ''https://api.snowrail.xyz'' \<and>
   (SNOWRAIL_ENV pe = None \<longrightarrow>
      resolveBaseUrl pe None None = Inr ''https://staging-api.snowrail.xyz'')"
  by (simp add: resolveBaseUrl_def nullish_def nullish_opt_def truthy_def BASE_URLS_def
      DEFAULT_ENV_def)

theorem environment_resolves_to_table_entry_witness:
  "SNOWRAIL_ENV no_env = None \<and>
   resolveBaseUrl no_env None None = Inr ''https://staging-api.snowrail.xyz'' \<and>
   resolveBaseUrl no_env (Some ''production'') None = Inr ''https://api.snowrail.xyz''"
  using environment_resolves_to_table_entry [of no_env]
  by (simp add: no_env_def)

section \<open>Request bridge\<close>

lemma parse_error_body:
  \<open>JSON_parse ''{"error":"boom"}'' = Some (JObj [(''error'', JStr ''boom'')])\<close>
  by code_simp

lemma parse_plain_text: "JSON_parse ''Bad Gateway'' = None"
  by code_simp

lemma parse_empty_text: "JSON_parse [] = None"
  by code_simp

lemma resolve_no_env: "resolveBaseUrl no_env None None = Inr ''https://staging-api.snowrail.xyz''"
  by (simp add: resolveBaseUrl_def no_env_def nullish_def nullish_opt_def truthy_def
      BASE_URLS_def DEFAULT_ENV_def)

text \<open>
  C2. Once the base URL is resolved, \<^verbatim>\<open>snowrailFetch\<close> fails exactly when the \<^verbatim>\<open>fetch\<close>
  call itself is rejected; for every HTTP response received, whatever its status code,
  it returns \<^verbatim>\<open>{url, status, data}\<close> with the status of the response.
\<close>

theorem every_response_is_returned:
  assumes "resolveBaseUrl pe (environment options) (baseUrlOverride options) = Inr base"
  shows "snowrailFetch pe pf path options =
           (case fetch pf (base @ path) (build_init pf options) of
              Inl rejection \<Rightarrow> Inl (FetchRejected rejection)
            | Inr res \<Rightarrow>
                Inr \<lparr>url = base @ path, status = res_status res,
                     data = parse_body (res_text res)\<rparr>)"
  using assms by (simp add: snowrailFetch_def Let_def)

theorem every_response_is_returned_witness:
  \<open>snowrailFetch no_env (stub_platform 500 ''{"error":"boom"}'') ''/health'' no_options =
     Inr \<lparr>url = ''https://staging-api.snowrail.xyz/health'', status = 500,
          data = JObj [(''error'', JStr ''boom'')]\<rparr>\<close>
  using every_response_is_returned [of no_env no_options "''https://staging-api.snowrail.xyz''"
      \<open>stub_platform 500 ''{"error":"boom"}''\<close> "''/health''"]
  by (simp add: resolve_no_env no_options_def stub_platform_def parse_body_def truthy_def
      parse_error_body)


text \<open>
  C5, as the specification states it, fails on the empty body: the empty text does not
  parse as JSON, and the data returned is \<^verbatim>\<open>null\<close>, not the raw text.
\<close>

theorem empty_body_is_not_raw_text:
  "JSON_parse '''' = None \<and>
   snowrailFetch no_env (stub_platform 200 '''') ''/health'' no_options =
     Inr \<lparr>url = ''https://staging-api.snowrail.xyz/health'', status = 200, data = JNull\<rparr> \<and>
   JNull \<noteq> JStr ''''"
  by (simp add: parse_empty_text snowrailFetch_def Let_def resolve_no_env no_options_def
      stub_platform_def parse_body_def truthy_def)

text \<open>
  C5, amended. For every non-empty response body text, the call returns, and its data
  is the parsed value when the text parses as JSON and the exact raw text otherwise.
\<close>

theorem nonempty_body_parsed_or_raw:
  assumes "resolveBaseUrl pe (environment options) (baseUrlOverride options) = Inr base"
    and "fetch pf (base @ path) (build_init pf options) = Inr res"
    and "res_text res \<noteq> []"
  shows "snowrailFetch pe pf path options =
           Inr \<lparr>url = base @ path, status = res_status res,
                data = (case JSON_parse (res_text res) of
                          None \<Rightarrow> JStr (res_text res)
                        | Some v \<Rightarrow> v)\<rparr>"
  using assms by (simp add: snowrailFetch_def Let_def parse_body_def truthy_def)

theorem nonempty_body_parsed_or_raw_witness:
  "snowrailFetch no_env (stub_platform 502 ''Bad Gateway'') ''/health'' no_options =
     Inr \<lparr>url = ''https://staging-api.snowrail.xyz/health'', status = 502,
          data = JStr ''Bad Gateway''\<rparr>"
  using nonempty_body_parsed_or_raw [of no_env no_options "''https://staging-api.snowrail.xyz''"
      "stub_platform 502 ''Bad Gateway''" "''/health''"
      "\<lparr>res_status = 502, res_text = ''Bad Gateway''\<rparr>"]
  by (simp add: resolve_no_env no_options_def stub_platform_def parse_plain_text)

text \<open>
  C9. When the response body is the empty string, the data returned is \<^verbatim>\<open>null\<close>:
  neither the empty string nor the outcome of a failed parse.
\<close>

theorem empty_body_gives_null:
  assumes "resolveBaseUrl pe (environment options) (baseUrlOverride options) = Inr base"
    and "fetch pf (base @ path) (build_init pf options) = Inr res"
    and "res_text res = []"
  shows "snowrailFetch pe pf path options =
           Inr \<lparr>url = base @ path, status = res_status res, data = JNull\<rparr> \<and>
         JNull \<noteq> JStr (res_text res)"
  using assms by (simp add: snowrailFetch_def Let_def parse_body_def truthy_def)

theorem empty_body_gives_null_witness:
  "snowrailFetch no_env (stub_platform 204 '''') ''/api/agent/stats'' no_options =
     Inr \<lparr>url = ''https://staging-api.snowrail.xyz/api/agent/stats'', status = 204,
          data = JNull\<rparr>"
  using empty_body_gives_null [of no_env no_options "''https://staging-api.snowrail.xyz''"
      "stub_platform 204 ''''" "''/api/agent/stats''" "\<lparr>res_status = 204, res_text = ''''\<rparr>"]
  by (simp add: resolve_no_env no_options_def stub_platform_def)

section \<open>Agent-to-agent messaging\<close>

lemma payload_of_message:
  "get_prop ''payload'' (JObj (a2a_message args)) = a2a_payload (messagePayload args)"
  by (simp add: get_prop_def a2a_message_def Let_def)

text \<open>
  C7. For every invocation of the messaging tool, the \<^verbatim>\<open>payload\<close> field of the
  \<^verbatim>\<open>message\<close> in the request body is the parsed value when \<^verbatim>\<open>messagePayload\<close> parses as
  JSON, and the raw string otherwise. A payload that does not parse rejects nothing:
  whenever the base URL resolves, the request with that body goes out to \<^verbatim>\<open>/process\<close>.
\<close>

theorem a2a_payload_parsed_or_raw:
  "get_prop ''payload'' (JObj (a2a_message args)) =
     (case JSON_parse (messagePayload args) of
        None \<Rightarrow> JStr (messagePayload args)
      | Some v \<Rightarrow> v) \<and>
   (resolveBaseUrl pe (a2a_environment args) (a2a_baseUrl args) = Inr base \<longrightarrow>
    snowrail_process_a2a pe pf args =
      respond pf
        (case fetch pf (base @ ''/process'')
                \<lparr>init_method = ''POST'',
                 init_headers = [(''Content-Type'', ''application/json''),
                                 (''X-PAYMENT'', a2a_xPayment args)],
                 init_body =
                   Some (JSON_stringify pf 0
                           (JObj [(''message'', JObj (a2a_message args))]))\<rparr> of
           Inl rejection \<Rightarrow> Inl (FetchRejected rejection)
         | Inr res \<Rightarrow>
             Inr \<lparr>url = base @ ''/process'', status = res_status res,
                  data = parse_body (res_text res)\<rparr>))"
  by (simp add: payload_of_message a2a_payload_def snowrail_process_a2a_def snowrailFetch_def
      build_init_def finalHeaders_def nullish_def Let_def)

theorem a2a_payload_parsed_or_raw_witness:
  \<open>get_prop ''payload''
     (JObj (a2a_message
        \<lparr>a2a_environment = None, a2a_baseUrl = None, a2a_xPayment = ''demo-token'',
         messageType = ''payroll_request'', messagePayload = ''{"error":"boom"}'',
         agentId = None, agentName = None\<rparr>)) = JObj [(''error'', JStr ''boom'')] \<and>
   get_prop ''payload''
     (JObj (a2a_message
        \<lparr>a2a_environment = None, a2a_baseUrl = None, a2a_xPayment = ''demo-token'',
         messageType = ''payroll_request'', messagePayload = ''Bad Gateway'',
         agentId = Some ''agent-7'', agentName = None\<rparr>)) = JStr ''Bad Gateway'' \<and>
   snowrail_process_a2a no_env (stub_platform 200 ''{"error":"boom"}'')
     \<lparr>a2a_environment = None, a2a_baseUrl = None, a2a_xPayment = ''demo-token'',
      messageType = ''payroll_request'', messagePayload = ''Bad Gateway'',
      agentId = Some ''agent-7'', agentName = None\<rparr> =
     Inr \<lparr>content = [\<lparr>block_type = ''text'', block_text = []\<rparr>]\<rparr>\<close>
  using a2a_payload_parsed_or_raw
      [where args = \<open>\<lparr>a2a_environment = None, a2a_baseUrl = None,
         a2a_xPayment = ''demo-token'', messageType = ''payroll_request'',
         messagePayload = ''{"error":"boom"}'', agentId = None, agentName = None\<rparr>\<close>]
    a2a_payload_parsed_or_raw
      [where pe = no_env and base = "''https://staging-api.snowrail.xyz''"
         and pf = \<open>stub_platform 200 ''{"error":"boom"}''\<close>
         and args = "\<lparr>a2a_environment = None, a2a_baseUrl = None,
           a2a_xPayment = ''demo-token'', messageType = ''payroll_request'',
           messagePayload = ''Bad Gateway'', agentId = Some ''agent-7'', agentName = None\<rparr>"]
  by (simp add: resolve_no_env parse_error_body parse_plain_text stub_platform_def respond_def
      toToolResult_def)

section \<open>Binary64 rounding\<close>

lemma of_int_bitlen_bounds:
  assumes "0 < n"
  shows "(2::rat) powi (bitlen n - 1) \<le> of_int n" and "of_int n < (2::rat) powi (bitlen n)"
proof -
  have pos: "1 \<le> bitlen n"
    using assms bitlen_nonneg [of n] bitlen_eq_zero_iff [of n] by linarith
  from bitlen_bounds [OF assms]
  have lo: "2 ^ nat (bitlen n - 1) \<le> n" and hi: "n < 2 ^ nat (bitlen n)" by auto
  have "(2::rat) powi (bitlen n - 1) = 2 ^ nat (bitlen n - 1)"
    using pos by (simp add: power_int_def)
  also have "\<dots> = of_int (2 ^ nat (bitlen n - 1))" by simp
  also have "\<dots> \<le> of_int n" using lo by (simp only: of_int_le_iff)
  finally show "(2::rat) powi (bitlen n - 1) \<le> of_int n" .
  have "(of_int n :: rat) < of_int (2 ^ nat (bitlen n))" using hi by (simp only: of_int_less_iff)
  also have "\<dots> = 2 ^ nat (bitlen n)" by simp
  also have "\<dots> = 2 powi (bitlen n)" using pos by (simp add: power_int_def)
  finally show "of_int n < (2::rat) powi (bitlen n)" .
qed

lemma ilog2_bounds:
  assumes "0 < x"
  shows "2 powi (ilog2 x) \<le> x" and "x < 2 powi (ilog2 x + 1)"
proof -
  obtain n d where q: "quotient_of x = (n, d)" by (cases "quotient_of x")
  have d: "0 < d" using q by (rule quotient_of_denom_pos)
  have x: "x = of_int n / of_int d" using q by (rule quotient_of_div)
  have n: "0 < n" using assms d x by (simp add: zero_less_divide_iff)
  define e where "e = bitlen n - bitlen d"
  have dr: "(0::rat) < of_int d" using d by simp
  have p: "(0::rat) < 2 powi k" for k by (simp add: zero_less_power_int)
  have "x < 2 powi (bitlen n) / of_int d"
    unfolding x using of_int_bitlen_bounds(2) [OF n] dr by (simp add: divide_strict_right_mono)
  also have "\<dots> \<le> 2 powi (bitlen n) / 2 powi (bitlen d - 1)"
    using of_int_bitlen_bounds(1) [OF d] p by (simp add: frac_le)
  also have "\<dots> = 2 powi (e + 1)"
    by (simp add: e_def power_int_diff [symmetric] algebra_simps)
  finally have upper: "x < 2 powi (e + 1)" .
  have "(2::rat) powi (e - 1) = 2 powi ((bitlen n - 1) - bitlen d)"
    by (simp add: e_def algebra_simps)
  also have "\<dots> = 2 powi (bitlen n - 1) / 2 powi (bitlen d)"
    by (rule power_int_diff) simp
  also have "\<dots> \<le> of_int n / 2 powi (bitlen d)"
    using of_int_bitlen_bounds(1) [OF n] p by (simp add: divide_right_mono)
  also have "\<dots> \<le> of_int n / of_int d"
    using of_int_bitlen_bounds(2) [OF d] dr n by (simp add: frac_le)
  finally have lower: "2 powi (e - 1) \<le> x" by (simp add: x)
  have il: "ilog2 x = (if 2 powi e \<le> x then e else e - 1)"
    by (simp add: ilog2_def q e_def Let_def)
  show "2 powi (ilog2 x) \<le> x" using lower by (simp add: il)
  show "x < 2 powi (ilog2 x + 1)" using upper by (auto simp: il not_le)
qed

lemma ilog2_between:
  assumes "0 < x" and "2 powi a \<le> x" and "x < 2 powi b"
  shows "a \<le> ilog2 x" and "ilog2 x < b"
proof -
  have "(2::rat) powi a < 2 powi (ilog2 x + 1)"
    using assms(2) ilog2_bounds(2) [OF assms(1)] by simp
  then have "a < ilog2 x + 1"
    by (metis power_int_increasing not_le one_le_numeral)
  then show "a \<le> ilog2 x" by simp
  have "(2::rat) powi (ilog2 x) < 2 powi b"
    using assms(3) ilog2_bounds(1) [OF assms(1)] by simp
  then show "ilog2 x < b"
    by (metis power_int_increasing not_le one_le_numeral)
qed

lemma round_half_even_error: "\<bar>of_int (round_half_even y) - y\<bar> \<le> 1 / 2"
proof -
  have "of_int \<lfloor>y\<rfloor> \<le> y" "y < of_int \<lfloor>y\<rfloor> + 1" by linarith+
  then show ?thesis by (auto simp: round_half_even_def Let_def)
qed

text \<open>In the normal range the rounded value is finite, positive and within half a unit
  in the last place.\<close>

lemma round_to_double_normal:
  assumes "0 < x" and "- 1022 \<le> ilog2 x" and "ilog2 x \<le> 1022"
  shows "\<exists>r. round_to_double False x = Fin r \<and> 0 < r \<and> \<bar>r - x\<bar> \<le> x / 2 ^ 53"
proof -
  define e where "e = ilog2 x"
  define q :: rat where "q = 2 powi (e - 52)"
  define m where "m = round_half_even (x / q)"
  have q: "0 < q" by (simp add: q_def zero_less_power_int)
  have e: "max (ilog2 x) (- 1022) = e" using assms(2) by (simp add: e_def)
  have lo: "2 powi e \<le> x" unfolding e_def using assms(1) by (rule ilog2_bounds)
  have "2 powi e = 2 ^ 52 * q"
    by (simp add: q_def power_int_diff)
  then have big: "2 ^ 52 \<le> x / q" using lo q by (simp add: pos_le_divide_eq mult.commute)
  have err: "\<bar>of_int m - x / q\<bar> \<le> 1 / 2" unfolding m_def by (rule round_half_even_error)
  have "(2 ^ 52 :: rat) - 1 / 2 \<le> of_int m" using big err by linarith
  then have "(2 ^ 52 :: rat) - 1 < of_int m" by linarith
  then have "(of_int (2 ^ 52 - 1) :: rat) < of_int m" by simp
  then have "(2 ^ 52 - 1 :: int) < m" by (simp only: of_int_less_iff)
  then have m: "0 < m" by simp
  have "of_int m * q - x = (of_int m - x / q) * q"
    using q by (simp add: left_diff_distrib)
  then have "\<bar>of_int m * q - x\<bar> = \<bar>of_int m - x / q\<bar> * \<bar>q\<bar>"
    by (simp only: abs_mult)
  also have "\<dots> = \<bar>of_int m - x / q\<bar> * q" using q by simp
  also have "\<dots> \<le> 1 / 2 * q" using err q by (simp add: mult_right_mono)
  also have "\<dots> = 2 powi e / 2 ^ 53" by (simp add: q_def power_int_diff)
  also have "\<dots> \<le> x / 2 ^ 53" using lo by (simp add: divide_right_mono)
  finally have close: "\<bar>of_int m * q - x\<bar> \<le> x / 2 ^ 53" .
  have "round_to_double False x = Fin (of_int m * q)"
    using assms m by (simp add: round_to_double_def e Let_def q_def [symmetric] m_def [symmetric] e_def [symmetric])
  moreover have "0 < of_int m * q" using m q by simp
  ultimately show ?thesis using close by blast
qed


lemma to_double_pos: "0 < x \<Longrightarrow> to_double x = round_to_double False x"
  by (simp add: to_double_def)

lemma js_mul_pos:
  assumes "0 < a" and "0 < b"
  shows "js_mul (Fin a) (Fin b) = round_to_double False (a * b)"
  using assms
  by (simp add: js_mul_def is_infinite_def is_zero_def is_negative_def magnitude_def)

lemma Math_round_Fin:
  assumes "of_int n \<le> b + 1 / 2" and "b + 1 / 2 < of_int n + 1" and "n \<noteq> 0"
  shows "Math_round (Fin b) = Fin (of_int n)"
proof -
  have "\<lfloor>b + 1 / 2\<rfloor> = n" using assms(1,2) by (simp add: floor_unique)
  then show ?thesis using assms(3) by (simp add: Math_round_def)
qed

lemma cents_of_two_decimals:
  assumes "0 < k" and "k < 2 ^ 50"
  shows "Math_round (js_mul (to_double (of_int k / 100)) (Fin 100)) = Fin (of_int k)"
proof -
  define x :: rat where "x = of_int k / 100"
  define c :: rat where "c = of_int k"
  have c1: "1 \<le> c" using assms(1) by (simp add: c_def)
  have "c < of_int (2 ^ 50)" unfolding c_def using assms(2) by (simp only: of_int_less_iff)
  then have c2: "c < 2 ^ 50" by simp
  have xc: "x = c / 100" by (simp add: x_def c_def)
  have x0: "0 < x" using c1 by (simp add: xc)
  have xlo: "2 powi (- 7) \<le> x" using c1 by (simp add: xc power_int_minus)
  have xhi: "x < 2 powi 44" using c2 by (simp add: xc)
  have "- 7 \<le> ilog2 x" and "ilog2 x < 44"
    using ilog2_between [OF x0 xlo xhi] by blast+
  then have "- 1022 \<le> ilog2 x" and "ilog2 x \<le> 1022" by simp_all
  from round_to_double_normal [OF x0 this]
  obtain a where a: "round_to_double False x = Fin a" "0 < a" "\<bar>a - x\<bar> \<le> x / 2 ^ 53"
    by blast
  define y where "y = a * 100"
  have "y - c = (a - x) * 100" by (simp add: y_def xc left_diff_distrib)
  then have "\<bar>y - c\<bar> = \<bar>a - x\<bar> * \<bar>100\<bar>" by (simp only: abs_mult)
  also have "\<dots> = \<bar>a - x\<bar> * 100" by simp
  also have "\<dots> \<le> x / 2 ^ 53 * 100" using a(3) by (intro mult_right_mono) simp_all
  also have "\<dots> = c / 2 ^ 53" by (simp add: xc)
  finally have ya: "\<bar>y - c\<bar> \<le> c / 2 ^ 53" .
  define t where "t = c / 2 ^ 53"
  have t: "0 < t" "t < 1 / 8" "t \<le> c / 2" using c1 c2 by (simp_all add: t_def)
  have ya': "\<bar>y - c\<bar> \<le> t" unfolding t_def by (rule ya)
  have yl: "c - t \<le> y" and yu: "y \<le> c + t" using ya' by linarith+
  have y0: "0 < y" using a(2) by (simp add: y_def)
  have "1 / 2 \<le> y" using yl t c1 by linarith
  then have ylo: "2 powi (- 1) \<le> y" by (simp add: power_int_minus)
  have "y < 2 ^ 50 + 1" using yu t c2 by linarith
  then have "y < 2 ^ 51" by simp
  then have yhi: "y < 2 powi 51" by simp
  have "- 1 \<le> ilog2 y" and "ilog2 y < 51"
    using ilog2_between [OF y0 ylo yhi] by blast+
  then have "- 1022 \<le> ilog2 y" and "ilog2 y \<le> 1022" by simp_all
  from round_to_double_normal [OF y0 this]
  obtain b where b: "round_to_double False y = Fin b" "0 < b" "\<bar>b - y\<bar> \<le> y / 2 ^ 53"
    by blast
  have "y / 2 ^ 53 \<le> (c + t) / 2 ^ 53" using yu by (simp add: divide_right_mono)
  also have "\<dots> \<le> t + t" using t by (simp add: t_def add_divide_distrib)
  finally have "\<bar>b - y\<bar> \<le> t + t" using b(3) by linarith
  then have near: "\<bar>b - c\<bar> < 1 / 2" using ya' t by linarith
  have "to_double (of_int k / 100) = Fin a"
    using x0 a(1) by (simp add: to_double_pos x_def)
  then have "js_mul (to_double (of_int k / 100)) (Fin 100) = Fin b"
    using a(2) b(1) by (simp add: js_mul_pos y_def)
  moreover have "Math_round (Fin b) = Fin (of_int k)"
  proof (rule Math_round_Fin)
    show "of_int k \<le> b + 1 / 2" using near unfolding c_def by linarith
    show "b + 1 / 2 < of_int k + 1" using near unfolding c_def by linarith
    show "k \<noteq> 0" using assms(1) by simp
  qed
  ultimately show ?thesis by simp
qed

section \<open>Payment processing\<close>

lemma payment_amount_field:
  "get_prop ''amount'' (get_prop ''payment'' (payment_body args)) =
     JNum (Math_round (js_mul (amount args) (Fin 100)))"
  by (simp add: payment_body_def get_prop_def)

lemma amount_payment_call: "amount (payment_call a) = a"
  by (simp add: payment_call_def)

lemma cents_of_1_015: "Math_round (js_mul (to_double (1015 / 1000)) (Fin 100)) = Fin 101"
  by code_simp

lemma exact_cents_of_1_015:
  "\<lfloor>(1015 / 1000 :: rat) * 100 + 1 / 2\<rfloor> = 102 \<and> round_half_even (1015 / 1000 * 100) = 102"
  by code_simp

lemma cents_of_0_015: "Math_round (js_mul (to_double (15 / 1000)) (Fin 100)) = Fin 2"
  by code_simp

lemma double_of_0_015: "to_double (15 / 1000) = Fin (1080863910568919 / 2 ^ 56)"
  by code_simp

lemma exact_cents_of_double_0_015:
  "\<lfloor>(1080863910568919 / 2 ^ 56 :: rat) * 100 + 1 / 2\<rfloor> = 1"
  by code_simp

text \<open>
  C6, as the specification states it, fails for an amount with more than two decimal
  places. The amount \<^verbatim>\<open>1.015\<close> gives the integer 101, while 1.015 times 100 is 101.5,
  which rounds to 102 (a tie towards \<open>+\<infinity>\<close>, as \<^verbatim>\<open>Math.round\<close> does, or to the even
  integer). Reading \<open>a\<close> as the binary64 number the handler receives does not save the
  claim: the number that \<^verbatim>\<open>0.015\<close> denotes is below 0.015, its exact product with 100
  rounds to 1, and the handler gives 2.
\<close>

theorem payment_amount_of_1_015:
  "get_prop ''amount'' (get_prop ''payment'' (payment_body (payment_call (to_double (1015 / 1000))))) =
     JNum (Fin 101) \<and>
   \<lfloor>(1015 / 1000 :: rat) * 100 + 1 / 2\<rfloor> = 102 \<and>
   round_half_even (1015 / 1000 * 100) = 102 \<and>
   get_prop ''amount'' (get_prop ''payment'' (payment_body (payment_call (to_double (15 / 1000))))) =
     JNum (Fin 2) \<and>
   to_double (15 / 1000) = Fin (1080863910568919 / 2 ^ 56) \<and>
   \<lfloor>(1080863910568919 / 2 ^ 56 :: rat) * 100 + 1 / 2\<rfloor> = 1"
proof (intro conjI)
  show "get_prop ''amount''
          (get_prop ''payment'' (payment_body (payment_call (to_double (1015 / 1000))))) =
        JNum (Fin 101)"
    by (simp only: payment_amount_field amount_payment_call cents_of_1_015)
  show "get_prop ''amount''
          (get_prop ''payment'' (payment_body (payment_call (to_double (15 / 1000))))) =
        JNum (Fin 2)"
    by (simp only: payment_amount_field amount_payment_call cents_of_0_015)
  show "\<lfloor>(1015 / 1000 :: rat) * 100 + 1 / 2\<rfloor> = 102"
    and "round_half_even (1015 / 1000 * 100) = 102"
    using exact_cents_of_1_015 by blast+
  show "to_double (15 / 1000) = Fin (1080863910568919 / 2 ^ 56)"
    by (rule double_of_0_015)
  show "\<lfloor>(1080863910568919 / 2 ^ 56 :: rat) * 100 + 1 / 2\<rfloor> = 1"
    by (rule exact_cents_of_double_0_015)
qed

text \<open>
  C6, amended. For every valid invocation of the payment-process tool, the payment
  sub-object of the request body carries \<^verbatim>\<open>Math.round(amount * 100)\<close>, computed in binary64
  arithmetic. Whenever the amount is a decimal with at most two decimal places, the
  number that \<open>k / 100\<close> denotes with \<open>0 < k < 2 ^ 50\<close>, this is exactly the integer \<open>k\<close>;
  in particular the amount \<^verbatim>\<open>19.99\<close> produces the integer amount 1999.
\<close>

theorem payment_amount_in_minor_units:
  "get_prop ''amount'' (get_prop ''payment'' (payment_body args)) =
     JNum (Math_round (js_mul (amount args) (Fin 100))) \<and>
   (0 < k \<and> k < 2 ^ 50 \<and> amount args = to_double (of_int k / 100) \<longrightarrow>
      get_prop ''amount'' (get_prop ''payment'' (payment_body args)) = JNum (Fin (of_int k)))"
  by (simp add: payment_amount_field cents_of_two_decimals)

theorem payment_amount_in_minor_units_witness:
  "get_prop ''amount'' (get_prop ''payment'' (payment_body (payment_call (to_double (1999 / 100))))) =
     JNum (Fin 1999)"
  using payment_amount_in_minor_units [of "payment_call (to_double (1999 / 100))" 1999,
      THEN conjunct2]
  by (simp add: amount_payment_call)


end
